theory Spec2Isabelle
  imports Complex_Main "HOL-Library.Word"
begin

section \<open>Python values, exceptions and the world of main.py\<close>

text \<open>
  The values that travel through main.py: what \<^verbatim>\<open>json.loads\<close> can return, plus the tuple
  that \<^verbatim>\<open>save_to_cache\<close> pickles. A dict is kept as the list of its items (JSON objects have
  string keys). Python's \<^verbatim>\<open>int\<close> is unbounded; a \<^verbatim>\<open>float\<close> is idealised as a real.
\<close>

type_synonym byte = "8 word"

datatype pyval =
    PNone
  | PBool bool
  | PInt int
  | PFloat real
  | PStr string
  | PList "pyval list"
  | PTuple "pyval list"
  | PDict "(string \<times> pyval) list"

text \<open>Truth value testing, as \<^verbatim>\<open>if cached_result:\<close> performs it.\<close>

fun truthy :: "pyval \<Rightarrow> bool" where
  "truthy PNone = False"
| "truthy (PBool b) = b"
| "truthy (PInt i) = (i \<noteq> 0)"
| "truthy (PFloat x) = (x \<noteq> 0)"
| "truthy (PStr s) = (s \<noteq> [])"
| "truthy (PList xs) = (xs \<noteq> [])"
| "truthy (PTuple xs) = (xs \<noteq> [])"
| "truthy (PDict kvs) = (kvs \<noteq> [])"

text \<open>
  Exceptions: FastAPI's \<^verbatim>\<open>HTTPException(status_code, detail)\<close>, and every other subclass of
  \<^verbatim>\<open>Exception\<close> (OSError, UnpicklingError, TypeError, ...) with the text \<^verbatim>\<open>str(e)\<close> gives.
\<close>

datatype exn = HTTPException nat string | PyError string

text \<open>
  Files. The cache records live in \<^verbatim>\<open>cv_cache/\<close> under the name \<^verbatim>\<open>f"{file_hash}.pkl"\<close>; the
  temporary files are named by \<^verbatim>\<open>tempfile\<close>. A file holds either what \<^verbatim>\<open>pickle.dump\<close> wrote
  for a value, or other bytes (which \<^verbatim>\<open>pickle.load\<close> rejects).
\<close>

datatype path = CachePath string | TempPath nat

datatype filedata = Pickled pyval | Bytes "byte list"

datatype io_op = Stat | OpenRead | OpenWrite | WriteData | Unlink

datatype call = ExtractCall path | GenerateCall string | SaveCall string pyval

text \<open>
  The world a request runs in: the file system; which operations on which paths fail with
  an OSError (and its message); the wall clock, as the sequence of values successive calls
  of \<^verbatim>\<open>time.time()\<close> return; the next temporary name; and the calls made so far to
  \<^verbatim>\<open>extract_text_from_pdf\<close>, \<^verbatim>\<open>generate_json_from_text\<close> and \<^verbatim>\<open>save_to_cache\<close>, oldest
  first (a ghost field: it only records, no function reads it).
\<close>

record world =
  files :: "path \<rightharpoonup> filedata"
  io_error :: "io_op \<Rightarrow> path \<Rightarrow> string option"
  time_src :: "nat \<Rightarrow> real"
  ticks :: nat
  next_tmp :: nat
  calls :: "call list"

text \<open>
  The libraries main.py calls and whose code is not in the repository, as parameters:
  \<^verbatim>\<open>hashlib.md5(content).hexdigest()\<close>; \<^verbatim>\<open>PyPDF2.PdfReader\<close> (an error, or the pages, each page's
  \<^verbatim>\<open>extract_text()\<close> being an error or a text); the completion endpoint (an error, or
  \<^verbatim>\<open>response.choices[0].message.content\<close>); \<^verbatim>\<open>json.loads\<close>; and \<^verbatim>\<open>str\<close> of an HTTPException.
\<close>

record env =
  md5_hexdigest :: "byte list \<Rightarrow> string"
  pdf_reader :: "byte list \<Rightarrow> string + (string + string) list"
  chat_completion :: "(string \<times> string) list \<Rightarrow> string + string"
  json_loads :: "string \<Rightarrow> string + pyval"
  http_str :: "nat \<Rightarrow> string \<Rightarrow> string"

record upload_file =
  filename :: string
  file_read :: "string + byte list"

subsection \<open>Statements that may raise\<close>

text \<open>
  A statement takes the world and gives the world after it, with either the exception it
  raised (\<open>Inl\<close>) or its value (\<open>Inr\<close>).
\<close>

type_synonym 'a io = "world \<Rightarrow> (exn + 'a) \<times> world"

definition return_io :: "'a \<Rightarrow> 'a io" where
  "return_io x w = (Inr x, w)"

definition raise_io :: "exn \<Rightarrow> 'a io" where
  "raise_io e w = (Inl e, w)"

definition lift_io :: "exn + 'a \<Rightarrow> 'a io" where
  "lift_io r w = (r, w)"

definition bind_io :: "'a io \<Rightarrow> ('a \<Rightarrow> 'b io) \<Rightarrow> 'b io" where
  "bind_io m f w = (case m w of (Inl e, w') \<Rightarrow> (Inl e, w') | (Inr x, w') \<Rightarrow> f x w')"

text \<open>\<^verbatim>\<open>try: m  except Exception as e: h e\<close>\<close>

definition try_except :: "'a io \<Rightarrow> (exn \<Rightarrow> 'a io) \<Rightarrow> 'a io" where
  "try_except m h w = (case m w of (Inl e, w') \<Rightarrow> h e w' | (Inr x, w') \<Rightarrow> (Inr x, w'))"

definition os_error :: "io_op \<Rightarrow> path \<Rightarrow> world \<Rightarrow> string option" where
  "os_error op p w = io_error w op p"

text \<open>
  \<^verbatim>\<open>Path.exists()\<close> calls \<^verbatim>\<open>os.stat\<close>; it answers \<^verbatim>\<open>False\<close> when there is no such file and
  re-raises every other OSError (EACCES on a directory that cannot be searched,
  ENAMETOOLONG, ...). Such an error means that the path cannot be reached, and then it
  cannot be opened either: a \<open>Stat\<close> failure of the world counts only where \<open>OpenRead\<close>
  fails too.
\<close>

definition stat_error :: "path \<Rightarrow> world \<Rightarrow> string option" where
  "stat_error p w = (case os_error OpenRead p w of None \<Rightarrow> None | Some m \<Rightarrow> os_error Stat p w)"

definition path_exists :: "path \<Rightarrow> bool io" where
  "path_exists p w =
     (case stat_error p w of
        Some m \<Rightarrow> (Inl (PyError m), w)
      | None \<Rightarrow> (Inr (files w p \<noteq> None), w))"

text \<open>\<^verbatim>\<open>open(p, "rb")\<close> and reading the whole file.\<close>

definition open_rb :: "path \<Rightarrow> filedata io" where
  "open_rb p w =
     (case os_error OpenRead p w of
        Some m \<Rightarrow> (Inl (PyError m), w)
      | None \<Rightarrow>
         (case files w p of
            None \<Rightarrow> (Inl (PyError ''No such file or directory''), w)
          | Some d \<Rightarrow> (Inr d, w)))"

definition pickle_load :: "filedata \<Rightarrow> exn + pyval" where
  "pickle_load d = (case d of Pickled v \<Rightarrow> Inr v | Bytes bs \<Rightarrow> Inl (PyError ''invalid pickle data''))"

text \<open>\<^verbatim>\<open>open(p, "wb")\<close>: creates the file, or truncates it.\<close>

definition open_wb :: "path \<Rightarrow> unit io" where
  "open_wb p w =
     (case os_error OpenWrite p w of
        Some m \<Rightarrow> (Inl (PyError m), w)
      | None \<Rightarrow> (Inr (), w\<lparr>files := (files w)(p \<mapsto> Bytes [])\<rparr>))"

text \<open>Writing to the open file and closing it; a failed write leaves the truncated file.\<close>

definition write_file :: "path \<Rightarrow> filedata \<Rightarrow> unit io" where
  "write_file p d w =
     (case os_error WriteData p w of
        Some m \<Rightarrow> (Inl (PyError m), w)
      | None \<Rightarrow> (Inr (), w\<lparr>files := (files w)(p \<mapsto> d)\<rparr>))"

definition unlink :: "path \<Rightarrow> unit io" where
  "unlink p w =
     (case os_error Unlink p w of
        Some m \<Rightarrow> (Inl (PyError m), w)
      | None \<Rightarrow>
         (case files w p of
            None \<Rightarrow> (Inl (PyError ''No such file or directory''), w)
          | Some d \<Rightarrow> (Inr (), w\<lparr>files := (files w)(p := None)\<rparr>)))"

definition time_time :: "real io" where
  "time_time w = (Inr (time_src w (ticks w)), w\<lparr>ticks := Suc (ticks w)\<rparr>)"

definition note_call :: "call \<Rightarrow> unit io" where
  "note_call c w = (Inr (), w\<lparr>calls := calls w @ [c]\<rparr>)"

text \<open>\<^verbatim>\<open>str(e)\<close>\<close>

definition str_exn :: "env \<Rightarrow> exn \<Rightarrow> string" where
  "str_exn env e = (case e of HTTPException code detail \<Rightarrow> http_str env code detail | PyError m \<Rightarrow> m)"

section \<open>The cache\<close>

definition CACHE_EXPIRY :: real where
  "CACHE_EXPIRY = 60 * 60 * 24 * 7"

definition get_file_hash :: "env \<Rightarrow> byte list \<Rightarrow> string" where
  "get_file_hash env content = md5_hexdigest env content"

definition cache_path :: "string \<Rightarrow> path" where
  "cache_path file_hash = CachePath (file_hash @ ''.pkl'')"

text \<open>\<^verbatim>\<open>timestamp, result = obj\<close>: unpacking an iterable of exactly two items.\<close>

definition two_items :: "pyval list \<Rightarrow> exn + pyval \<times> pyval" where
  "two_items xs =
     (case xs of
        [a, b] \<Rightarrow> Inr (a, b)
      | _ \<Rightarrow> Inl (PyError ''wrong number of values to unpack (expected 2)''))"

fun unpack2 :: "pyval \<Rightarrow> exn + pyval \<times> pyval" where
  "unpack2 (PTuple xs) = two_items xs"
| "unpack2 (PList xs) = two_items xs"
| "unpack2 (PStr s) = two_items (map (\<lambda>c. PStr [c]) s)"
| "unpack2 (PDict kvs) = two_items (map (\<lambda>kv. PStr (fst kv)) kvs)"
| "unpack2 v = Inl (PyError ''cannot unpack non-iterable object'')"

text \<open>
  Arithmetic on doubles. A \<^verbatim>\<open>float\<close> is the real number it denotes, and an operation gives
  the exact result rounded to the nearest double, a tie going to the even significand
  (IEEE 754 binary64: 53 significant bits). The exponent is not bounded here: overflow
  to infinity and subnormal numbers are left out, they are far from any time stamp.
\<close>

definition round_even :: "real \<Rightarrow> int" where
  "round_even y =
     (if y - of_int \<lfloor>y\<rfloor> < 1 / 2 then \<lfloor>y\<rfloor>
      else if y - of_int \<lfloor>y\<rfloor> > 1 / 2 then \<lfloor>y\<rfloor> + 1
      else if even \<lfloor>y\<rfloor> then \<lfloor>y\<rfloor> else \<lfloor>y\<rfloor> + 1)"

definition to_double :: "real \<Rightarrow> real" where
  "to_double x =
     (if x = 0 then 0
      else (let u = 2 powr (of_int \<lfloor>log 2 \<bar>x\<bar>\<rfloor> - 52)
            in u * of_int (round_even (x / u))))"

text \<open>
  \<^verbatim>\<open>now - timestamp\<close> for a float \<^verbatim>\<open>now\<close>: defined on numbers (a bool is an int). An int is
  converted to a double first, which raises OverflowError when it is too large.
\<close>

definition too_large :: "int \<Rightarrow> bool" where
  "too_large i = (2 ^ 1024 - 2 ^ 970 \<le> \<bar>i\<bar>)"

fun float_sub :: "real \<Rightarrow> pyval \<Rightarrow> exn + real" where
  "float_sub now (PFloat t) = Inr (to_double (now - t))"
| "float_sub now (PInt i) =
     (if too_large i
      then Inl (PyError ''int too large to convert to float'')
      else Inr (to_double (now - to_double (of_int i))))"
| "float_sub now (PBool b) = Inr (to_double (now - of_bool b))"
| "float_sub now v = Inl (PyError ''unsupported operand type(s) for -'')"

definition get_from_cache :: "string \<Rightarrow> pyval io" where
  "get_from_cache file_hash =
     (let cache_file = cache_path file_hash in
      bind_io (path_exists cache_file) (\<lambda>found.
        if \<not> found then return_io PNone
        else
          try_except
            (bind_io (open_rb cache_file) (\<lambda>f.
             bind_io (lift_io (pickle_load f)) (\<lambda>obj.
             bind_io (lift_io (unpack2 obj)) (\<lambda>(timestamp, result).
             bind_io time_time (\<lambda>now.
             bind_io (lift_io (float_sub now timestamp)) (\<lambda>age.
               if age > CACHE_EXPIRY
               then bind_io (unlink cache_file) (\<lambda>_. return_io PNone)
               else return_io result))))))
            (\<lambda>e. return_io PNone)))"

definition save_to_cache :: "string \<Rightarrow> pyval \<Rightarrow> unit io" where
  "save_to_cache file_hash result =
     (let cache_file = cache_path file_hash in
      bind_io (note_call (SaveCall file_hash result)) (\<lambda>_.
        try_except
          (bind_io (open_wb cache_file) (\<lambda>_.
           bind_io time_time (\<lambda>now.
             write_file cache_file (Pickled (PTuple [PFloat now, result])))))
          (\<lambda>e. return_io ())))"

section \<open>Text extraction\<close>

text \<open>
  The loop \<^verbatim>\<open>for i, page in enumerate(pdf_reader.pages): text += page.extract_text() + "\n"\<close>,
  with \<open>text\<close> the string built so far; a page that fails to decode raises.
\<close>

fun extract_pages :: "(string + string) list \<Rightarrow> string \<Rightarrow> exn + string" where
  "extract_pages [] text = Inr text"
| "extract_pages (page # pages) text =
     (case page of
        Inl m \<Rightarrow> Inl (PyError m)
      | Inr page_text \<Rightarrow> extract_pages pages (text @ page_text @ ''\<newline>''))"

definition pdf_pages :: "env \<Rightarrow> filedata \<Rightarrow> exn + (string + string) list" where
  "pdf_pages env d =
     (case d of
        Pickled v \<Rightarrow> Inl (PyError ''not a PDF file'')
      | Bytes bs \<Rightarrow> (case pdf_reader env bs of Inl m \<Rightarrow> Inl (PyError m) | Inr pages \<Rightarrow> Inr pages))"

definition extract_text_from_pdf :: "env \<Rightarrow> path \<Rightarrow> string io" where
  "extract_text_from_pdf env file_path =
     bind_io (note_call (ExtractCall file_path)) (\<lambda>_.
       try_except
         (bind_io (open_rb file_path) (\<lambda>pdf_file.
          bind_io (lift_io (pdf_pages env pdf_file)) (\<lambda>pages.
            lift_io (extract_pages pages []))))
         (\<lambda>e. raise_io (PyError (''Failed to extract text from PDF: '' @ str_exn env e))))"

section \<open>The structuring service\<close>

text \<open>\<^verbatim>\<open>len(json_data)\<close>, which the log line after \<^verbatim>\<open>json.loads\<close> evaluates.\<close>

fun py_len :: "pyval \<Rightarrow> exn + nat" where
  "py_len (PStr s) = Inr (length s)"
| "py_len (PList xs) = Inr (length xs)"
| "py_len (PTuple xs) = Inr (length xs)"
| "py_len (PDict kvs) = Inr (length kvs)"
| "py_len v = Inl (PyError ''object has no len()'')"

definition messages :: "string \<Rightarrow> (string \<times> string) list" where
  "messages cv_text =
     [(''system'', ''You are an expert CV analyzer. Extract structured information from the given CV and return it in JSON format.''),
      (''user'', ''Analyze this CV text and extract structured information as JSON:\<newline>\<newline>'' @ cv_text)]"

definition generate_json_from_text :: "env \<Rightarrow> string \<Rightarrow> pyval io" where
  "generate_json_from_text env cv_text =
     bind_io (note_call (GenerateCall cv_text)) (\<lambda>_.
       try_except
         (bind_io (lift_io (case chat_completion env (messages cv_text) of
                              Inl m \<Rightarrow> Inl (PyError m) | Inr c \<Rightarrow> Inr c)) (\<lambda>content.
          bind_io (lift_io (case json_loads env content of
                              Inl m \<Rightarrow> Inl (PyError m) | Inr j \<Rightarrow> Inr j)) (\<lambda>json_data.
          bind_io (lift_io (py_len json_data)) (\<lambda>n.
            return_io json_data))))
         (\<lambda>e. raise_io (PyError (''OpenAI API error: '' @ str_exn env e))))"

section \<open>The upload handler\<close>

text \<open>\<^verbatim>\<open>str.lower\<close> on the ASCII letters, and \<^verbatim>\<open>str.endswith\<close>.\<close>

definition lower_char :: "char \<Rightarrow> char" where
  "lower_char c =
     (if 65 \<le> (of_char c :: nat) \<and> (of_char c :: nat) \<le> 90
      then char_of (of_char c + (32 :: nat)) else c)"

definition lower :: "string \<Rightarrow> string" where
  "lower s = map lower_char s"

definition endswith :: "string \<Rightarrow> string \<Rightarrow> bool" where
  "endswith s suf = (length suf \<le> length s \<and> drop (length s - length suf) s = suf)"

text \<open>
  \<^verbatim>\<open>with tempfile.NamedTemporaryFile(delete=False, suffix=".pdf") as temp_file:\<close>
  \<^verbatim>\<open>    temp_file.write(content); temp_file_path = temp_file.name\<close>
\<close>

definition named_temporary_file :: "path io" where
  "named_temporary_file w =
     (let p = TempPath (next_tmp w) in
      case os_error OpenWrite p w of
        Some m \<Rightarrow> (Inl (PyError m), w)
      | None \<Rightarrow> (Inr p, w\<lparr>files := (files w)(p \<mapsto> Bytes []), next_tmp := Suc (next_tmp w)\<rparr>))"

definition save_temporary :: "byte list \<Rightarrow> path io" where
  "save_temporary content =
     bind_io named_temporary_file (\<lambda>temp_file.
     bind_io (write_file temp_file (Bytes content)) (\<lambda>_.
       return_io temp_file))"

text \<open>The body of the \<^verbatim>\<open>try\<close> block of \<^verbatim>\<open>upload_cv\<close>.\<close>

definition upload_body :: "env \<Rightarrow> upload_file \<Rightarrow> pyval io" where
  "upload_body env file =
     bind_io (lift_io (case file_read file of Inl m \<Rightarrow> Inl (PyError m) | Inr c \<Rightarrow> Inr c)) (\<lambda>content.
     let file_hash = get_file_hash env content in
     bind_io (get_from_cache file_hash) (\<lambda>cached_result.
       if truthy cached_result then return_io cached_result
       else
         bind_io (save_temporary content) (\<lambda>temp_file_path.
         bind_io (extract_text_from_pdf env temp_file_path) (\<lambda>cv_text.
         bind_io (unlink temp_file_path) (\<lambda>_.
           if cv_text \<noteq> []
           then
             bind_io (generate_json_from_text env cv_text) (\<lambda>extracted_json.
             bind_io (save_to_cache file_hash extracted_json) (\<lambda>_.
               return_io extracted_json))
           else raise_io (HTTPException 400 ''Could not extract text from the PDF''))))))"

definition upload_cv :: "env \<Rightarrow> upload_file \<Rightarrow> pyval io" where
  "upload_cv env file =
     (if \<not> endswith (lower (filename file)) ''.pdf''
      then raise_io (HTTPException 400 ''Only PDF files are accepted'')
      else
        try_except (upload_body env file)
          (\<lambda>e. return_io (PDict [(''error'', PStr (str_exn env e))])))"

section \<open>Notions used to state the properties\<close>

text \<open>
  The record at \<open>p\<close> is a readable (timestamp, result) pair that a lookup at the next clock
  reading finds older than \<open>CACHE_EXPIRY\<close>.
\<close>

definition expired :: "path \<Rightarrow> world \<Rightarrow> bool" where
  "expired p w =
     (case files w p of
        Some (Pickled obj) \<Rightarrow>
          (case unpack2 obj of
             Inr (ts, r) \<Rightarrow>
               (case float_sub (time_src w (ticks w)) ts of
                  Inr age \<Rightarrow> age > CACHE_EXPIRY
                | Inl e \<Rightarrow> False)
           | Inl e \<Rightarrow> False)
      | _ \<Rightarrow> False)"

text \<open>
  The specification's wording of the extractor's output, "pages joined with a line break":
  Python's \<^verbatim>\<open>"\n".join(texts)\<close>. It is compared below with what the loop of
  \<^verbatim>\<open>extract_text_from_pdf\<close> builds.
\<close>

fun spec_pages_joined :: "string list \<Rightarrow> string" where
  "spec_pages_joined [] = []"
| "spec_pages_joined [t] = t"
| "spec_pages_joined (t # u # ts) = t @ ''\<newline>'' @ spec_pages_joined (u # ts)"

subsection \<open>Concrete scenarios\<close>

text \<open>An empty cache directory, no failing operation, the clock one second per reading.\<close>

definition quiet_world :: world where
  "quiet_world =
     \<lparr>files = Map.empty, io_error = (\<lambda>op p. None), time_src = (\<lambda>n. 1700000000 + real n),
      ticks = 0, next_tmp = 0, calls = []\<rparr>"

definition with_record :: "string \<Rightarrow> real \<Rightarrow> pyval \<Rightarrow> world \<Rightarrow> world" where
  "with_record k t v w = w\<lparr>files := (files w)(cache_path k \<mapsto> Pickled (PTuple [PFloat t, v]))\<rparr>"

definition failing :: "io_op \<Rightarrow> string \<Rightarrow> world \<Rightarrow> world" where
  "failing op m w = w\<lparr>io_error := (\<lambda>op' p. if op' = op then Some m else io_error w op' p)\<rparr>"

definition john :: pyval where
  "john = PDict [(''name'', PStr ''John Doe''), (''title'', PStr ''Engineer'')]"

text \<open>
  A stand-in for the libraries: bytes that do not start with \<^verbatim>\<open>%\<close> are not a PDF, the single
  byte \<^verbatim>\<open>%\<close> is a PDF without pages, anything else has one page.
\<close>

definition demo_pdf_reader :: "byte list \<Rightarrow> string + (string + string) list" where
  "demo_pdf_reader bs =
     (if take 1 bs \<noteq> [0x25] then Inl ''EOF marker not found''
      else if length bs = 1 then Inr []
      else Inr [Inr ''John Doe, Engineer''])"

definition demo_env :: env where
  "demo_env =
     \<lparr>md5_hexdigest = (\<lambda>bs. ''abc''),
      pdf_reader = demo_pdf_reader,
      chat_completion = (\<lambda>msgs. Inr ''JSON''),
      json_loads = (\<lambda>s. Inr john),
      http_str = (\<lambda>code detail. ''400: '' @ detail)\<rparr>"

definition not_a_pdf :: upload_file where
  "not_a_pdf = \<lparr>filename = ''cv.pdf'', file_read = Inr [0x6E, 0x6F]\<rparr>"

definition resume_pdf :: upload_file where
  "resume_pdf = \<lparr>filename = ''Resume.PDF'', file_read = Inr [0x25, 0x50]\<rparr>"

definition blank_pdf :: upload_file where
  "blank_pdf = \<lparr>filename = ''scan.pdf'', file_read = Inr [0x25]\<rparr>"

definition resume_docx :: upload_file where
  "resume_docx = \<lparr>filename = ''resume.docx'', file_read = Inr [0x25, 0x50]\<rparr>"

text \<open>The cache directory has lost its search permission: nothing in it can be reached.\<close>

definition locked_cache :: world where
  "locked_cache =
     quiet_world\<lparr>io_error :=
       (\<lambda>op p. case p of CachePath n \<Rightarrow> Some ''Permission denied'' | TempPath n \<Rightarrow> None)\<rparr>"

definition pdf_on_disk :: world where
  "pdf_on_disk = quiet_world\<lparr>files := [TempPath 0 \<mapsto> Bytes [0x25, 0x50]]\<rparr>"

section \<open>What each function does, case by case\<close>

subsection \<open>Rounding to a double, and the expiry test\<close>

lemma round_even_ge: "of_int N \<le> y \<Longrightarrow> N \<le> round_even y"
proof -
  assume "of_int N \<le> y"
  then have "N \<le> \<lfloor>y\<rfloor>" by (simp add: le_floor_iff)
  then show ?thesis by (simp add: round_even_def)
qed

lemma round_even_le: "y \<le> of_int N \<Longrightarrow> round_even y \<le> N"
proof (cases "y = of_int N")
  case True
  then show ?thesis by (simp add: round_even_def)
next
  case False
  assume "y \<le> of_int N"
  with False have "y < of_int N" by simp
  then have "\<lfloor>y\<rfloor> < N" by (simp add: floor_less_iff)
  then show ?thesis by (simp add: round_even_def)
qed

lemma round_even_gt_even:
  assumes "even K"
  shows "K < round_even y \<longleftrightarrow> of_int K + 1 / 2 < y"
proof
  assume gt: "K < round_even y"
  show "of_int K + 1 / 2 < y"
  proof (rule ccontr)
    assume "\<not> of_int K + 1 / 2 < y"
    then have le: "y \<le> of_int K + 1 / 2" by simp
    then have "y < of_int (K + 1)" by simp
    then have "\<lfloor>y\<rfloor> < K + 1" by (simp only: floor_less_iff)
    then have fl: "\<lfloor>y\<rfloor> \<le> K" by simp
    show False
    proof (cases "\<lfloor>y\<rfloor> = K")
      case True
      with le assms gt show False by (auto simp: round_even_def split: if_splits)
    next
      case False
      with fl have "\<lfloor>y\<rfloor> + 1 \<le> K" by simp
      with gt show False by (auto simp: round_even_def split: if_splits)
    qed
  qed
next
  assume h: "of_int K + 1 / 2 < y"
  then have "of_int K \<le> y" by simp
  then have fl: "K \<le> \<lfloor>y\<rfloor>" by (simp add: le_floor_iff)
  show "K < round_even y"
  proof (cases "\<lfloor>y\<rfloor> = K")
    case True
    with h show ?thesis by (auto simp: round_even_def)
  next
    case False
    with fl have "K < \<lfloor>y\<rfloor>" by simp
    then show ?thesis by (auto simp: round_even_def)
  qed
qed

lemma to_double_nonpos: "x \<le> 0 \<Longrightarrow> to_double x \<le> 0"
proof (cases "x = 0")
  case True
  then show ?thesis by (simp add: to_double_def)
next
  case False
  assume "x \<le> 0"
  define u :: real where "u = 2 powr (of_int \<lfloor>log 2 \<bar>x\<bar>\<rfloor> - 52)"
  have u: "0 < u" by (simp add: u_def)
  with \<open>x \<le> 0\<close> have "x / u \<le> of_int 0" by (simp add: divide_nonpos_pos)
  then have "round_even (x / u) \<le> 0" by (rule round_even_le)
  then have "u * of_int (round_even (x / u)) \<le> 0"
    using u by (simp add: mult_le_0_iff)
  with False show ?thesis by (simp add: to_double_def Let_def u_def)
qed

lemma to_double_binade:
  assumes "0 < x" and "\<lfloor>log 2 x\<rfloor> = e"
  shows "to_double x = 2 powr (of_int e - 52) * of_int (round_even (x / 2 powr (of_int e - 52)))"
    and "2 powr of_int e \<le> to_double x" and "to_double x \<le> 2 powr (of_int e + 1)"
proof -
  define u :: real where "u = 2 powr (of_int e - 52)"
  have u: "0 < u" by (simp add: u_def)
  from assms have b: "2 powr of_int e \<le> x" "x < 2 powr (of_int e + 1)"
    by (simp_all add: floor_log_eq_powr_iff)
  have lo: "2 powr of_int e = u * 2 ^ 52" and hi: "2 powr (of_int e + 1) = u * 2 ^ 53"
    by (simp_all add: u_def powr_diff powr_add)
  show eq: "to_double x = 2 powr (of_int e - 52) * of_int (round_even (x / 2 powr (of_int e - 52)))"
    using assms by (simp add: to_double_def Let_def)
  have "of_int (2 ^ 52) \<le> x / u" using b(1) u by (simp add: lo pos_le_divide_eq mult.commute)
  then have "2 ^ 52 \<le> round_even (x / u)" by (rule round_even_ge)
  then have "(2 ^ 52 :: real) \<le> of_int (round_even (x / u))"
    by (metis of_int_le_iff of_int_numeral of_int_power)
  then have "u * 2 ^ 52 \<le> u * of_int (round_even (x / u))" using u by simp
  then show "2 powr of_int e \<le> to_double x" by (simp add: eq lo u_def)
  have "x / u \<le> of_int (2 ^ 53)" using b(2) u by (simp add: hi pos_divide_le_eq mult.commute)
  then have "round_even (x / u) \<le> 2 ^ 53" by (rule round_even_le)
  then have "of_int (round_even (x / u)) \<le> (2 ^ 53 :: real)"
    by (metis of_int_le_iff of_int_numeral of_int_power)
  then have "u * of_int (round_even (x / u)) \<le> u * 2 ^ 53" using u by simp
  then show "to_double x \<le> 2 powr (of_int e + 1)" by (simp add: eq hi u_def)
qed

lemma to_double_gt_week:
  "604800 < to_double d \<longleftrightarrow> 604800 + 1 / 2 ^ 34 < d"
proof (cases "0 < d")
  case False
  then have "to_double d \<le> 0" by (simp add: to_double_nonpos)
  with False show ?thesis by simp
next
  case True
  define e where "e = \<lfloor>log 2 d\<rfloor>"
  from True have b: "2 powr of_int e \<le> d" "d < 2 powr (of_int e + 1)"
    using floor_log_eq_powr_iff [of d 2 e] by (simp_all add: e_def)
  note t = to_double_binade [OF True e_def [symmetric]]
  consider "e \<le> 18" | "e = 19" | "20 \<le> e" by linarith
  then show ?thesis
  proof cases
    case 1
    then have "2 powr (of_int e + 1) \<le> 2 powr (19 :: real)"
      by (intro powr_mono) simp_all
    also have "\<dots> = 2 ^ 19" by (simp add: powr_numeral)
    finally have le: "2 powr (of_int e + 1) \<le> (2 ^ 19 :: real)" .
    with t(3) b(2) show ?thesis by simp
  next
    case 2
    have u: "2 powr (of_int e - 52) = 1 / (2 ^ 33 :: real)"
      using 2 by (simp add: powr_minus_divide powr_numeral)
    have "604800 < to_double d \<longleftrightarrow>
            (of_int 5195192441241600 :: real) < of_int (round_even (d * 2 ^ 33))"
      by (simp add: t(1) u pos_less_divide_eq)
    also have "\<dots> \<longleftrightarrow> 5195192441241600 < round_even (d * 2 ^ 33)"
      by (simp only: of_int_less_iff)
    also have "\<dots> \<longleftrightarrow> of_int 5195192441241600 + 1 / 2 < d * 2 ^ 33"
      by (rule round_even_gt_even) simp
    also have "\<dots> \<longleftrightarrow> 604800 + 1 / 2 ^ 34 < d"
      by (simp add: field_simps)
    finally show ?thesis .
  next
    case 3
    then have "2 powr (20 :: real) \<le> 2 powr of_int e"
      by (intro powr_mono) simp_all
    then have "(2 ^ 20 :: real) \<le> 2 powr of_int e"
      by (simp add: powr_numeral)
    with t(2) b(1) show ?thesis by simp
  qed
qed

text \<open>
  The test \<^verbatim>\<open>time.time() - timestamp > CACHE_EXPIRY\<close> on the rounded difference, in terms of
  the exact one: the doubles around 604800 are \<open>1 / 2 ^ 33\<close> apart, and a difference up to
  half of that above 604800 rounds to 604800.
\<close>

lemma expiry_test:
  "CACHE_EXPIRY < to_double d \<longleftrightarrow> CACHE_EXPIRY + 1 / 2 ^ 34 < d"
  using to_double_gt_week [of d] by (simp add: CACHE_EXPIRY_def)

subsection \<open>The cache and the temporary file\<close>

lemmas io_defs = return_io_def raise_io_def lift_io_def bind_io_def try_except_def
  path_exists_def open_rb_def pickle_load_def open_wb_def write_file_def unlink_def
  time_time_def note_call_def

lemma get_from_cache_cases:
  "get_from_cache k w =
     (case stat_error (cache_path k) w of
        Some m \<Rightarrow> (Inl (PyError m), w)
      | None \<Rightarrow>
     (case files w (cache_path k) of
        None \<Rightarrow> (Inr PNone, w)
      | Some d \<Rightarrow>
         (case os_error OpenRead (cache_path k) w of
            Some m \<Rightarrow> (Inr PNone, w)
          | None \<Rightarrow>
             (case d of
                Bytes bs \<Rightarrow> (Inr PNone, w)
              | Pickled obj \<Rightarrow>
                 (case unpack2 obj of
                    Inl e \<Rightarrow> (Inr PNone, w)
                  | Inr (ts, r) \<Rightarrow>
                     (case float_sub (time_src w (ticks w)) ts of
                        Inl e \<Rightarrow> (Inr PNone, w\<lparr>ticks := Suc (ticks w)\<rparr>)
                      | Inr age \<Rightarrow>
                         if age > CACHE_EXPIRY
                         then (case os_error Unlink (cache_path k) w of
                                 Some m \<Rightarrow> (Inr PNone, w\<lparr>ticks := Suc (ticks w)\<rparr>)
                               | None \<Rightarrow> (Inr PNone, w\<lparr>ticks := Suc (ticks w),
                                                       files := (files w)(cache_path k := None)\<rparr>))
                         else (Inr r, w\<lparr>ticks := Suc (ticks w)\<rparr>)))))))"
  unfolding get_from_cache_def Let_def
  by (auto simp: io_defs os_error_def split: option.splits sum.splits filedata.splits prod.splits)

lemma stat_error_readable:
  "os_error OpenRead p w = None \<Longrightarrow> stat_error p w = None"
  by (simp add: stat_error_def)

lemma save_to_cache_cases:
  "save_to_cache k r w =
     (case os_error OpenWrite (cache_path k) w of
        Some m \<Rightarrow> (Inr (), w\<lparr>calls := calls w @ [SaveCall k r]\<rparr>)
      | None \<Rightarrow>
         (case os_error WriteData (cache_path k) w of
            Some m \<Rightarrow> (Inr (), w\<lparr>calls := calls w @ [SaveCall k r],
                                 files := (files w)(cache_path k \<mapsto> Bytes []),
                                 ticks := Suc (ticks w)\<rparr>)
          | None \<Rightarrow> (Inr (), w\<lparr>calls := calls w @ [SaveCall k r],
                                 files := (files w)(cache_path k \<mapsto>
                                            Pickled (PTuple [PFloat (time_src w (ticks w)), r])),
                                 ticks := Suc (ticks w)\<rparr>)))"
  unfolding save_to_cache_def Let_def
  by (auto simp: io_defs os_error_def split: option.splits sum.splits filedata.splits prod.splits)

lemma save_temporary_cases:
  "save_temporary content w =
     (case os_error OpenWrite (TempPath (next_tmp w)) w of
        Some m \<Rightarrow> (Inl (PyError m), w)
      | None \<Rightarrow>
         (case os_error WriteData (TempPath (next_tmp w)) w of
            Some m \<Rightarrow> (Inl (PyError m),
                        w\<lparr>files := (files w)(TempPath (next_tmp w) \<mapsto> Bytes []),
                          next_tmp := Suc (next_tmp w)\<rparr>)
          | None \<Rightarrow> (Inr (TempPath (next_tmp w)),
                      w\<lparr>files := (files w)(TempPath (next_tmp w) \<mapsto> Bytes content),
                        next_tmp := Suc (next_tmp w)\<rparr>)))"
  unfolding save_temporary_def named_temporary_file_def Let_def
  by (auto simp: io_defs os_error_def split: option.splits sum.splits prod.splits)

lemmas run_defs = upload_cv_def upload_body_def get_from_cache_cases save_to_cache_cases
  save_temporary_cases extract_text_from_pdf_def generate_json_from_text_def io_defs
  os_error_def lower_def lower_char_def endswith_def get_file_hash_def cache_path_def
  pdf_pages_def str_exn_def messages_def two_items_def CACHE_EXPIRY_def Let_def char_of_def
  bit_Suc_0_iff stat_error_def to_double_gt_week

lemmas scene_defs = quiet_world_def with_record_def failing_def john_def demo_pdf_reader_def
  demo_env_def not_a_pdf_def resume_pdf_def blank_pdf_def resume_docx_def pdf_on_disk_def
  locked_cache_def

subsection \<open>The loop over the pages\<close>

lemma extract_pages_texts:
  "extract_pages (map Inr texts) acc = Inr (acc @ concat (map (\<lambda>t. t @ ''\<newline>'') texts))"
  by (induction texts arbitrary: acc) simp_all

lemma extract_pages_grows:
  "extract_pages pages acc = Inr out \<Longrightarrow> length acc + length pages \<le> length out"
proof (induction pages arbitrary: acc)
  case Nil
  then show ?case by simp
next
  case (Cons page pages)
  then show ?case by (cases page) fastforce+
qed

lemma extract_pages_empty:
  "extract_pages pages [] = Inr [] \<longleftrightarrow> pages = []"
  using extract_pages_grows [of pages "[]" "[]"] by auto

lemma lines_terminated:
  "texts \<noteq> [] \<Longrightarrow>
     concat (map (\<lambda>t. t @ ''\<newline>'') texts) = spec_pages_joined texts @ ''\<newline>''"
  by (induction texts rule: spec_pages_joined.induct) simp_all

subsection \<open>Frames: what a step leaves alone\<close>

lemma extract_text_from_pdf_world:
  "snd (extract_text_from_pdf env p w) = w\<lparr>calls := calls w @ [ExtractCall p]\<rparr>"
  unfolding extract_text_from_pdf_def
  by (auto simp: io_defs os_error_def split: option.splits sum.splits prod.splits)

lemma extract_text_from_pdf_worldD:
  "extract_text_from_pdf env p w = (x, w') \<Longrightarrow> w' = w\<lparr>calls := calls w @ [ExtractCall p]\<rparr>"
  using extract_text_from_pdf_world [of env p w] by simp

lemma extract_text_from_pdf_value:
  "fst (extract_text_from_pdf env p w) = Inr out \<longleftrightarrow>
     os_error OpenRead p w = None \<and>
     (\<exists>d pages. files w p = Some d \<and> pdf_pages env d = Inr pages \<and>
                extract_pages pages [] = Inr out)"
  unfolding extract_text_from_pdf_def
  by (auto simp: io_defs os_error_def split: option.splits sum.splits prod.splits)

lemma generate_json_from_text_world:
  "snd (generate_json_from_text env t w) = w\<lparr>calls := calls w @ [GenerateCall t]\<rparr>"
  unfolding generate_json_from_text_def
  by (auto simp: io_defs os_error_def split: option.splits sum.splits prod.splits)

lemma generate_json_from_text_worldD:
  "generate_json_from_text env t w = (x, w') \<Longrightarrow> w' = w\<lparr>calls := calls w @ [GenerateCall t]\<rparr>"
  using generate_json_from_text_world [of env t w] by simp

lemma unlink_InrD:
  "unlink p w = (Inr u, w') \<Longrightarrow> w' = w\<lparr>files := (files w)(p := None)\<rparr>"
  by (auto simp: unlink_def split: option.splits)

lemma save_temporary_InrD:
  "save_temporary content w = (Inr tp, w') \<Longrightarrow>
     tp = TempPath (next_tmp w) \<and>
     w' = w\<lparr>files := (files w)(tp \<mapsto> Bytes content), next_tmp := Suc (next_tmp w)\<rparr>"
  by (auto simp: save_temporary_cases split: option.splits)

lemma get_from_cache_frame:
  assumes "get_from_cache k w = (x, w')"
  shows "io_error w' = io_error w" and "time_src w' = time_src w" and "calls w' = calls w"
    and "next_tmp w' = next_tmp w" and "files w' (TempPath n) = files w (TempPath n)"
  using assms
  by (auto simp: get_from_cache_cases cache_path_def
      split: option.splits sum.splits filedata.splits prod.splits if_splits)

lemma get_hit_value:
  assumes "get_from_cache k w = (Inr r, w1)" and "truthy r"
  shows "\<exists>obj ts age. files w (cache_path k) = Some (Pickled obj) \<and> unpack2 obj = Inr (ts, r) \<and>
           float_sub (time_src w (ticks w)) ts = Inr age \<and> w1 = w\<lparr>ticks := Suc (ticks w)\<rparr>"
  using assms
  by (auto simp: get_from_cache_cases
      split: option.splits sum.splits filedata.splits prod.splits if_splits)

lemma float_sub_defined:
  "float_sub now ts = Inr age \<Longrightarrow> \<exists>age'. float_sub now' ts = Inr age'"
  by (cases ts) (auto split: if_splits)

subsection \<open>Which steps can raise what\<close>

lemma never_raised:
  "save_to_cache k r w \<noteq> (Inl e, w')"
  by (auto simp: save_to_cache_cases split: option.splits)

lemma never_http:
  "get_from_cache k w \<noteq> (Inl (HTTPException code detail), w')"
  "save_temporary c w \<noteq> (Inl (HTTPException code detail), w')"
  "extract_text_from_pdf env p w \<noteq> (Inl (HTTPException code detail), w')"
  "unlink p w \<noteq> (Inl (HTTPException code detail), w')"
  "generate_json_from_text env t w \<noteq> (Inl (HTTPException code detail), w')"
  by (auto simp: get_from_cache_cases save_temporary_cases extract_text_from_pdf_def
      generate_json_from_text_def io_defs
      split: option.splits sum.splits prod.splits filedata.splits)

lemma try_except_return_fst:
  "fst (try_except m (\<lambda>e. return_io (f e)) w) =
     (case fst (m w) of Inl e \<Rightarrow> Inr (f e) | Inr x \<Rightarrow> Inr x)"
  by (simp add: try_except_def return_io_def split: prod.splits sum.splits)

lemma try_except_return_snd:
  "snd (try_except m (\<lambda>e. return_io (f e)) w) = snd (m w)"
  by (simp add: try_except_def return_io_def split: prod.splits sum.splits)

subsection \<open>The paths through the body of the handler\<close>

lemma upload_body_InrE:
  assumes "upload_body env file w = (Inr r, w1)"
  obtains (hit) content where
      "file_read file = Inr content"
      "get_from_cache (get_file_hash env content) w = (Inr r, w1)" "truthy r"
  | (processed) content c wa tp wb cv_text wc wd we where
      "file_read file = Inr content"
      "get_from_cache (get_file_hash env content) w = (Inr c, wa)" "\<not> truthy c"
      "save_temporary content wa = (Inr tp, wb)"
      "extract_text_from_pdf env tp wb = (Inr cv_text, wc)"
      "unlink tp wc = (Inr (), wd)" "cv_text \<noteq> []"
      "generate_json_from_text env cv_text wd = (Inr r, we)"
      "save_to_cache (get_file_hash env content) r we = (Inr (), w1)"
  using assms
  unfolding upload_body_def Let_def
  by (simp add: bind_io_def lift_io_def return_io_def raise_io_def
      split: sum.splits prod.splits if_splits)

lemma upload_body_HTTPException:
  assumes "upload_body env file w = (Inl (HTTPException code detail), w')"
  shows "\<exists>content c wa tp wb wc. file_read file = Inr content \<and>
           get_from_cache (get_file_hash env content) w = (Inr c, wa) \<and> \<not> truthy c \<and>
           save_temporary content wa = (Inr tp, wb) \<and>
           extract_text_from_pdf env tp wb = (Inr [], wc) \<and>
           unlink tp wc = (Inr (), w')"
  using assms
  unfolding upload_body_def Let_def
  by (simp add: bind_io_def lift_io_def return_io_def raise_io_def never_raised never_http
      split: sum.splits prod.splits if_splits)

lemma upload_body_miss_rel:
  assumes "file_read file = Inr content"
      and "get_from_cache (get_file_hash env content) w = (Inr c, wa)" "\<not> truthy c"
      and "get_from_cache (get_file_hash env content) v = (Inr c', va)" "\<not> truthy c'"
      and "io_error wa = io_error va" "next_tmp wa = next_tmp va" "calls wa = calls va"
  shows "fst (upload_body env file w) = fst (upload_body env file v) \<and>
         calls (snd (upload_body env file w)) = calls (snd (upload_body env file v))"
  using assms
  unfolding upload_body_def Let_def
  by (auto simp: bind_io_def lift_io_def return_io_def raise_io_def save_temporary_cases
      extract_text_from_pdf_def generate_json_from_text_def note_call_def try_except_def
      open_rb_def unlink_def save_to_cache_cases os_error_def
      split: option.splits sum.splits prod.splits)

lemma filename_checks:
  "endswith (lower ''cv.pdf'') ''.pdf''"
  "endswith (lower ''Resume.PDF'') ''.pdf''"
  "endswith (lower ''scan.pdf'') ''.pdf''"
  "\<not> endswith (lower ''resume.docx'') ''.pdf''"
  by (simp_all add: lower_def lower_char_def endswith_def char_of_def bit_Suc_0_iff)

section \<open>Properties of the cache\<close>

text \<open>
  C1 (cache round trip). For every hash \<open>k\<close> and value \<open>v\<close>: \<^verbatim>\<open>save_to_cache(k, v)\<close> followed by
  \<^verbatim>\<open>get_from_cache(k)\<close> returns \<open>v\<close>, when the lookup's clock reading is at most
  \<open>CACHE_EXPIRY\<close> later than the store's. The record is taken to be writable and readable;
  what the two functions do otherwise is stated with the failures, further down.
\<close>

theorem cache_round_trip:
  assumes "os_error OpenWrite (cache_path k) w = None"
      and "os_error WriteData (cache_path k) w = None"
      and "os_error OpenRead (cache_path k) w = None"
      and "time_src w (Suc (ticks w)) - time_src w (ticks w) \<le> CACHE_EXPIRY"
  shows "fst (get_from_cache k (snd (save_to_cache k v w))) = Inr v"
  using assms
  by (simp add: save_to_cache_cases get_from_cache_cases os_error_def stat_error_def
      two_items_def expiry_test)

theorem cache_round_trip_witness:
  "fst (get_from_cache ''abc'' (snd (save_to_cache ''abc'' john quiet_world))) = Inr john"
  by (rule cache_round_trip) (simp_all add: os_error_def quiet_world_def CACHE_EXPIRY_def)




text \<open>
  What the two functions do when something fails. \<^verbatim>\<open>save_to_cache\<close> never raises. Unless
  \<^verbatim>\<open>exists()\<close> raises, \<^verbatim>\<open>get_from_cache\<close> returns: a lookup gives \<^verbatim>\<open>None\<close> and changes nothing
  when the record is missing, cannot be opened, is not a pickle, or is not a pair; it gives
  \<^verbatim>\<open>None\<close> when the timestamp is not a number, and when the record is expired and cannot
  be deleted (the record then stays). A store whose record cannot be opened for writing
  leaves every file as it was; a store that fails while writing has already truncated the
  record, and the next lookup misses.
\<close>

lemma cache_errors_swallowed:
  "(\<exists>w'. save_to_cache k r w = (Inr (), w')) \<and>
   (stat_error (cache_path k) w = None \<longrightarrow>
      (\<exists>v w'. get_from_cache k w = (Inr v, w')) \<and>
      (files w (cache_path k) = None \<longrightarrow> get_from_cache k w = (Inr PNone, w)) \<and>
      (os_error OpenRead (cache_path k) w \<noteq> None \<longrightarrow> get_from_cache k w = (Inr PNone, w)) \<and>
      ((\<exists>bs. files w (cache_path k) = Some (Bytes bs)) \<longrightarrow> get_from_cache k w = (Inr PNone, w)) \<and>
      ((\<exists>obj e. files w (cache_path k) = Some (Pickled obj) \<and> unpack2 obj = Inl e) \<longrightarrow>
         get_from_cache k w = (Inr PNone, w)) \<and>
      ((\<exists>obj ts x e. files w (cache_path k) = Some (Pickled obj) \<and> unpack2 obj = Inr (ts, x) \<and>
           float_sub (time_src w (ticks w)) ts = Inl e) \<longrightarrow>
         fst (get_from_cache k w) = Inr PNone) \<and>
      (expired (cache_path k) w \<and> os_error Unlink (cache_path k) w \<noteq> None \<longrightarrow>
         fst (get_from_cache k w) = Inr PNone \<and> files (snd (get_from_cache k w)) = files w)) \<and>
   (os_error OpenWrite (cache_path k) w \<noteq> None \<longrightarrow>
      files (snd (save_to_cache k r w)) = files w) \<and>
   (os_error OpenWrite (cache_path k) w = None \<and> os_error WriteData (cache_path k) w \<noteq> None \<longrightarrow>
      files (snd (save_to_cache k r w)) = (files w)(cache_path k \<mapsto> Bytes []))"
  by (auto simp: get_from_cache_cases save_to_cache_cases expired_def os_error_def
      split: option.splits sum.splits filedata.splits prod.splits)

text \<open>
  C3 (fail-open cache) does not hold of the code. \<^verbatim>\<open>cache_file.exists()\<close> stands before the
  \<^verbatim>\<open>try\<close> of \<^verbatim>\<open>get_from_cache\<close>: when the cache directory cannot be searched, the lookup
  raises instead of returning \<^verbatim>\<open>None\<close>, and an upload that could have been processed ends
  in an error body without the extractor being called. And a failed store is not always
  a no-op: with the disk full, the store of a new value over a valid entry returns
  normally, but the entry that a lookup returned before is gone afterwards.
\<close>

theorem cache_lookup_raises:
  "fst (get_from_cache ''abc'' locked_cache) = Inl (PyError ''Permission denied'') \<and>
   upload_cv demo_env resume_pdf locked_cache =
     (Inr (PDict [(''error'', PStr ''Permission denied'')]), locked_cache) \<and>
   fst (get_from_cache ''abc''
     (failing WriteData ''No space left on device'' (with_record ''abc'' 1699999000 john quiet_world)))
     = Inr john \<and>
   fst (save_to_cache ''abc'' (PDict [])
     (failing WriteData ''No space left on device'' (with_record ''abc'' 1699999000 john quiet_world)))
     = Inr () \<and>
   files (snd (save_to_cache ''abc'' (PDict [])
     (failing WriteData ''No space left on device'' (with_record ''abc'' 1699999000 john quiet_world))))
     (cache_path ''abc'') = Some (Bytes []) \<and>
   fst (get_from_cache ''abc'' (snd (save_to_cache ''abc'' (PDict [])
     (failing WriteData ''No space left on device'' (with_record ''abc'' 1699999000 john quiet_world)))))
     = Inr PNone"
  by (simp add: run_defs scene_defs)

section \<open>Properties of the text extraction\<close>

text \<open>
  C8 (extraction output shape), as the code has it. For a PDF that parses and whose pages
  all decode, \<^verbatim>\<open>extract_text_from_pdf\<close> returns the page texts in page order, each one
  followed by a line break: the pages joined by single line breaks and, when there is at
  least one page, one more line break after the last one.
\<close>

theorem extraction_output_shape:
  assumes "files w p = Some (Bytes bs)"
      and "os_error OpenRead p w = None"
      and "pdf_reader env bs = Inr (map Inr texts)"
  shows "fst (extract_text_from_pdf env p w) = Inr (concat (map (\<lambda>t. t @ ''\<newline>'') texts)) \<and>
         concat (map (\<lambda>t. t @ ''\<newline>'') texts) =
           (if texts = [] then [] else spec_pages_joined texts @ ''\<newline>'')"
  using assms
  by (simp add: extract_text_from_pdf_def io_defs os_error_def pdf_pages_def
      extract_pages_texts lines_terminated)

theorem extraction_output_shape_witness:
  "fst (extract_text_from_pdf demo_env (TempPath 0) pdf_on_disk) = Inr ''John Doe, Engineer\<newline>''"
  using extraction_output_shape [of pdf_on_disk "TempPath 0" "[0x25, 0x50]" demo_env
      "[''John Doe, Engineer'']"]
  by (simp add: pdf_on_disk_def quiet_world_def os_error_def demo_env_def demo_pdf_reader_def)

text \<open>
  The specification has the pages joined by a line break; for a PDF of one page the
  function returns something else, the page with a line break after it.
\<close>

theorem trailing_line_break:
  "fst (extract_text_from_pdf demo_env (TempPath 0) pdf_on_disk) \<noteq>
     Inr (spec_pages_joined [''John Doe, Engineer''])"
  by (simp add: extract_text_from_pdf_def io_defs os_error_def pdf_pages_def
      pdf_on_disk_def quiet_world_def demo_env_def demo_pdf_reader_def)

text \<open>
  C10 (non-empty extraction). For a PDF that parses, has at least one page and whose pages
  all decode, \<^verbatim>\<open>extract_text_from_pdf\<close> returns a string, and that string is not empty: every
  page appends at least its line break, even a page without text. In general, when the
  function returns a string, the string is empty exactly when the file is a PDF with zero
  pages. Hence the body of \<^verbatim>\<open>upload_cv\<close> raises its "Could not extract text" exception only
  for an upload whose PDF has zero pages.
\<close>

theorem extraction_nonempty:
  "(\<forall>bs texts. files w p = Some (Bytes bs) \<and> os_error OpenRead p w = None \<and>
        pdf_reader env bs = Inr (map Inr texts) \<and> texts \<noteq> [] \<longrightarrow>
      (\<exists>cv_text. fst (extract_text_from_pdf env p w) = Inr cv_text \<and> cv_text \<noteq> [])) \<and>
   (\<forall>cv_text w'. extract_text_from_pdf env p w = (Inr cv_text, w') \<longrightarrow>
      (cv_text = [] \<longleftrightarrow> (\<exists>bs. files w p = Some (Bytes bs) \<and> pdf_reader env bs = Inr []))) \<and>
   (\<forall>w'. upload_body env file w =
            (Inl (HTTPException 400 ''Could not extract text from the PDF''), w') \<longrightarrow>
      (\<exists>content. file_read file = Inr content \<and> pdf_reader env content = Inr []))"
proof (intro conjI allI impI)
  fix bs texts
  assume a: "files w p = Some (Bytes bs) \<and> os_error OpenRead p w = None \<and>
        pdf_reader env bs = Inr (map Inr texts) \<and> texts \<noteq> []"
  then have "fst (extract_text_from_pdf env p w) =
      Inr (concat (map (\<lambda>t. t @ ''\<newline>'') texts))"
    by (simp add: extract_text_from_pdf_value pdf_pages_def extract_pages_texts)
  moreover have "concat (map (\<lambda>t. t @ ''\<newline>'') texts) \<noteq> []"
    using a by (cases texts) simp_all
  ultimately show "\<exists>cv_text. fst (extract_text_from_pdf env p w) = Inr cv_text \<and> cv_text \<noteq> []"
    by blast
next
  fix cv_text w'
  assume "extract_text_from_pdf env p w = (Inr cv_text, w')"
  then have "fst (extract_text_from_pdf env p w) = Inr cv_text" by simp
  then obtain d pages where
    d: "files w p = Some d" "pdf_pages env d = Inr pages" "extract_pages pages [] = Inr cv_text"
    unfolding extract_text_from_pdf_value by blast
  show "cv_text = [] \<longleftrightarrow> (\<exists>bs. files w p = Some (Bytes bs) \<and> pdf_reader env bs = Inr [])"
    using d extract_pages_empty [of pages]
    by (cases d) (auto simp: pdf_pages_def split: sum.splits)
next
  fix w'
  assume "upload_body env file w =
            (Inl (HTTPException 400 ''Could not extract text from the PDF''), w')"
  from upload_body_HTTPException [OF this] obtain content c wa tp wb wc where
    *: "file_read file = Inr content" "save_temporary content wa = (Inr tp, wb)"
       "extract_text_from_pdf env tp wb = (Inr [], wc)"
    by blast
  note tmp = save_temporary_InrD [OF *(2)]
  from *(3) have "fst (extract_text_from_pdf env tp wb) = Inr []" by simp
  then obtain d pages where
    d: "files wb tp = Some d" "pdf_pages env d = Inr pages" "extract_pages pages [] = Inr []"
    unfolding extract_text_from_pdf_value by blast
  from d(1) tmp have "d = Bytes content" by simp
  with d(2,3) extract_pages_empty [of pages] have "pdf_reader env content = Inr []"
    by (auto simp: pdf_pages_def split: sum.splits)
  with *(1) show "\<exists>content. file_read file = Inr content \<and> pdf_reader env content = Inr []"
    by blast
qed

theorem extraction_nonempty_witness:
  "(\<exists>cv_text. fst (extract_text_from_pdf demo_env (TempPath 0) pdf_on_disk) = Inr cv_text \<and>
      cv_text \<noteq> []) \<and>
   (\<exists>cv_text. fst (extract_text_from_pdf (demo_env\<lparr>pdf_reader := \<lambda>bs. Inr [Inr [], Inr []]\<rparr>)
      (TempPath 0) pdf_on_disk) = Inr cv_text \<and> cv_text \<noteq> []) \<and>
   (\<exists>content. file_read blank_pdf = Inr content \<and> pdf_reader demo_env content = Inr [])"
proof (intro conjI)
  have "files pdf_on_disk (TempPath 0) = Some (Bytes [0x25, 0x50]) \<and>
        os_error OpenRead (TempPath 0) pdf_on_disk = None \<and>
        pdf_reader demo_env [0x25, 0x50] = Inr (map Inr [''John Doe, Engineer'']) \<and>
        [''John Doe, Engineer''] \<noteq> []"
    by (simp add: os_error_def scene_defs)
  with extraction_nonempty [of pdf_on_disk "TempPath 0" demo_env]
  show "\<exists>cv_text. fst (extract_text_from_pdf demo_env (TempPath 0) pdf_on_disk) = Inr cv_text \<and>
      cv_text \<noteq> []"
    by blast
next
  let ?env = "demo_env\<lparr>pdf_reader := \<lambda>bs. Inr [Inr [], Inr []]\<rparr>"
  have "files pdf_on_disk (TempPath 0) = Some (Bytes [0x25, 0x50]) \<and>
        os_error OpenRead (TempPath 0) pdf_on_disk = None \<and>
        pdf_reader ?env [0x25, 0x50] = Inr (map Inr [[], []]) \<and>
        [[], []] \<noteq> ([] :: string list)"
    by (simp add: os_error_def scene_defs)
  with extraction_nonempty [of pdf_on_disk "TempPath 0" ?env]
  show "\<exists>cv_text. fst (extract_text_from_pdf ?env (TempPath 0) pdf_on_disk) = Inr cv_text \<and>
      cv_text \<noteq> []"
    by blast
next
  have "upload_body demo_env blank_pdf quiet_world =
      (Inl (HTTPException 400 ''Could not extract text from the PDF''),
       snd (upload_body demo_env blank_pdf quiet_world))"
    by (simp add: prod_eq_iff run_defs scene_defs)
  with extraction_nonempty [of quiet_world _ demo_env blank_pdf]
  show "\<exists>content. file_read blank_pdf = Inr content \<and> pdf_reader demo_env content = Inr []"
    by blast
qed

section \<open>Properties of the upload handler\<close>

text \<open>
  C6 (error propagation). A filename that does not end in \<^verbatim>\<open>.pdf\<close>, letter case ignored, makes
  \<^verbatim>\<open>upload_cv\<close> raise \<^verbatim>\<open>HTTPException(400)\<close> without touching anything. With any other
  filename \<^verbatim>\<open>upload_cv\<close> never raises: it returns a body, and when the body of its
  \<^verbatim>\<open>try\<close> block raises \<open>e\<close> (a failed read, extraction or structuring error, the
  exception for an empty text, ...) that body is the mapping \<^verbatim>\<open>{"error": str(e)}\<close>.
\<close>

theorem error_propagation:
  "(\<not> endswith (lower (filename file)) ''.pdf'' \<longrightarrow>
      upload_cv env file w = (Inl (HTTPException 400 ''Only PDF files are accepted''), w)) \<and>
   (endswith (lower (filename file)) ''.pdf'' \<longrightarrow>
      (\<exists>body w'. upload_cv env file w = (Inr body, w')) \<and>
      (\<forall>e w'. upload_body env file w = (Inl e, w') \<longrightarrow>
         upload_cv env file w = (Inr (PDict [(''error'', PStr (str_exn env e))]), w')))"
  by (auto simp: upload_cv_def raise_io_def try_except_def return_io_def
      split: sum.splits prod.splits)

theorem error_propagation_witness:
  "upload_cv demo_env resume_docx quiet_world =
     (Inl (HTTPException 400 ''Only PDF files are accepted''), quiet_world) \<and>
   fst (upload_cv demo_env not_a_pdf quiet_world) =
     Inr (PDict [(''error'', PStr ''Failed to extract text from PDF: EOF marker not found'')]) \<and>
   fst (upload_cv demo_env blank_pdf quiet_world) =
     Inr (PDict [(''error'', PStr ''400: Could not extract text from the PDF'')])"
proof (intro conjI)
  show "upload_cv demo_env resume_docx quiet_world =
     (Inl (HTTPException 400 ''Only PDF files are accepted''), quiet_world)"
    using error_propagation [of resume_docx demo_env quiet_world]
    by (simp add: resume_docx_def filename_checks)
next
  have "upload_body demo_env not_a_pdf quiet_world =
      (Inl (PyError ''Failed to extract text from PDF: EOF marker not found''),
       snd (upload_body demo_env not_a_pdf quiet_world))"
    by (simp add: prod_eq_iff run_defs scene_defs)
  moreover have "endswith (lower (filename not_a_pdf)) ''.pdf''"
    by (simp add: not_a_pdf_def filename_checks)
  ultimately have "upload_cv demo_env not_a_pdf quiet_world =
      (Inr (PDict [(''error'', PStr (str_exn demo_env
         (PyError ''Failed to extract text from PDF: EOF marker not found'')))]),
       snd (upload_body demo_env not_a_pdf quiet_world))"
    using error_propagation [of not_a_pdf demo_env quiet_world] by blast
  then show "fst (upload_cv demo_env not_a_pdf quiet_world) =
     Inr (PDict [(''error'', PStr ''Failed to extract text from PDF: EOF marker not found'')])"
    by (simp add: str_exn_def)
next
  have "upload_body demo_env blank_pdf quiet_world =
      (Inl (HTTPException 400 ''Could not extract text from the PDF''),
       snd (upload_body demo_env blank_pdf quiet_world))"
    by (simp add: prod_eq_iff run_defs scene_defs)
  moreover have "endswith (lower (filename blank_pdf)) ''.pdf''"
    by (simp add: blank_pdf_def filename_checks)
  ultimately have "upload_cv demo_env blank_pdf quiet_world =
      (Inr (PDict [(''error'', PStr (str_exn demo_env
         (HTTPException 400 ''Could not extract text from the PDF'')))]),
       snd (upload_body demo_env blank_pdf quiet_world))"
    using error_propagation [of blank_pdf demo_env quiet_world] by blast
  then show "fst (upload_cv demo_env blank_pdf quiet_world) =
     Inr (PDict [(''error'', PStr ''400: Could not extract text from the PDF'')])"
    by (simp add: str_exn_def demo_env_def)
qed

text \<open>
  C7 (empty extraction). An upload that misses the cache, is saved to a temporary file and
  whose extraction returns the empty string ends in an error body, never in a structured
  result: the message is that of \<^verbatim>\<open>HTTPException(400, "Could not extract text from the PDF")\<close>
  once the temporary file has been removed. The extractor is the only collaborator
  called: neither \<^verbatim>\<open>generate_json_from_text\<close> nor \<^verbatim>\<open>save_to_cache\<close> is, and the cache
  directory is as the lookup left it.
\<close>

theorem empty_extraction_is_error:
  assumes name: "endswith (lower (filename file)) ''.pdf''"
      and content: "file_read file = Inr content"
      and miss: "get_from_cache (get_file_hash env content) w = (Inr c, wa)" "\<not> truthy c"
      and temp: "save_temporary content wa = (Inr tp, wb)"
      and empty: "extract_text_from_pdf env tp wb = (Inr [], wc)"
  shows "\<exists>msg w'. upload_cv env file w = (Inr (PDict [(''error'', PStr msg)]), w') \<and>
           (os_error Unlink tp w = None \<longrightarrow>
              msg = str_exn env (HTTPException 400 ''Could not extract text from the PDF'')) \<and>
           calls w' = calls w @ [ExtractCall tp] \<and>
           (\<forall>q. files w' (CachePath q) = files wa (CachePath q))"
proof -
  note fr = get_from_cache_frame [OF miss(1)]
  note tmp = save_temporary_InrD [OF temp]
  note ex = extract_text_from_pdf_worldD [OF empty]
  have body: "upload_body env file w = bind_io (unlink tp)
      (\<lambda>_. raise_io (HTTPException 400 ''Could not extract text from the PDF'')) wc"
    using content miss temp empty
    by (simp add: upload_body_def Let_def bind_io_def lift_io_def return_io_def)
  have tpe: "files wc tp = Some (Bytes content)" and io: "io_error wc = io_error w"
    and cl: "calls wc = calls w @ [ExtractCall tp]"
    and cf: "\<And>q. files wc (CachePath q) = files wa (CachePath q)"
    using fr tmp ex by simp_all
  show ?thesis
  proof (cases "os_error Unlink tp w")
    case None
    then have "unlink tp wc = (Inr (), wc\<lparr>files := (files wc)(tp := None)\<rparr>)"
      using tpe io by (simp add: unlink_def os_error_def)
    then show ?thesis
      using name body None cl cf tmp
      by (simp add: upload_cv_def try_except_def bind_io_def raise_io_def return_io_def)
  next
    case (Some m)
    then have "unlink tp wc = (Inl (PyError m), wc)"
      using io by (simp add: unlink_def os_error_def)
    then show ?thesis
      using name body Some cl cf
      by (simp add: upload_cv_def try_except_def bind_io_def raise_io_def return_io_def)
  qed
qed

theorem empty_extraction_is_error_witness:
  "fst (upload_cv demo_env blank_pdf (with_record ''abc'' 1699999000 (PDict []) quiet_world)) =
     Inr (PDict [(''error'', PStr ''400: Could not extract text from the PDF'')]) \<and>
   calls (snd (upload_cv demo_env blank_pdf (with_record ''abc'' 1699999000 (PDict []) quiet_world))) =
     [ExtractCall (TempPath 0)] \<and>
   files (snd (upload_cv demo_env blank_pdf (with_record ''abc'' 1699999000 (PDict []) quiet_world)))
     (CachePath ''abc.pkl'') = Some (Pickled (PTuple [PFloat 1699999000, PDict []]))"
proof -
  let ?w = "with_record ''abc'' 1699999000 (PDict []) quiet_world"
  let ?wa = "?w\<lparr>ticks := Suc 0\<rparr>"
  let ?wb = "?wa\<lparr>files := (files ?wa)(TempPath 0 \<mapsto> Bytes [0x25]), next_tmp := Suc 0\<rparr>"
  let ?wc = "?wb\<lparr>calls := [ExtractCall (TempPath 0)]\<rparr>"
  have "\<exists>msg w'. upload_cv demo_env blank_pdf ?w = (Inr (PDict [(''error'', PStr msg)]), w') \<and>
           (os_error Unlink (TempPath 0) ?w = None \<longrightarrow>
              msg = str_exn demo_env (HTTPException 400 ''Could not extract text from the PDF'')) \<and>
           calls w' = calls ?w @ [ExtractCall (TempPath 0)] \<and>
           (\<forall>q. files w' (CachePath q) = files ?wa (CachePath q))"
  proof (rule empty_extraction_is_error [where content = "[0x25]" and c = "PDict []"
        and wb = ?wb and wc = ?wc])
    show "endswith (lower (filename blank_pdf)) ''.pdf''"
      by (simp add: blank_pdf_def filename_checks)
    show "file_read blank_pdf = Inr [0x25]"
      by (simp add: blank_pdf_def)
    show "get_from_cache (get_file_hash demo_env [0x25]) ?w = (Inr (PDict []), ?wa)"
      by (simp add: run_defs scene_defs)
    show "\<not> truthy (PDict [])" by simp
    show "save_temporary [0x25] ?wa = (Inr (TempPath 0), ?wb)"
      by (simp add: run_defs scene_defs)
    show "extract_text_from_pdf demo_env (TempPath 0) ?wb = (Inr [], ?wc)"
      by (simp add: run_defs scene_defs)
  qed
  then show ?thesis
    by (auto simp: str_exn_def os_error_def scene_defs cache_path_def)
qed

text \<open>
  C4 (temporary-file cleanup) does not hold of the code: \<^verbatim>\<open>os.unlink(temp_file_path)\<close> comes
  after \<^verbatim>\<open>extract_text_from_pdf\<close> and outside any \<^verbatim>\<open>finally\<close>, so an extraction that raises
  skips it. Uploading bytes that are not a PDF ends with the error body, and the temporary
  file that holds the bytes is still there.
\<close>

theorem temp_file_left_behind:
  "fst (upload_cv demo_env not_a_pdf quiet_world) =
     Inr (PDict [(''error'', PStr ''Failed to extract text from PDF: EOF marker not found'')]) \<and>
   files (snd (upload_cv demo_env not_a_pdf quiet_world)) (TempPath 0) = Some (Bytes [0x6E, 0x6F])"
  by (simp add: run_defs scene_defs)

text \<open>
  C5 (repeat upload), as the code has it. When the first upload of a content completes
  without an exception and its result \<open>r\<close> is truthy (served from the cache, or freshly
  structured and stored), the record of the content can be written and read, and it has
  not expired at the second lookup, then the second upload returns \<open>r\<close>, whatever the
  collaborators would answer now, and changes nothing but the clock reading it consumed:
  no call of \<^verbatim>\<open>extract_text_from_pdf\<close>, \<^verbatim>\<open>generate_json_from_text\<close> or \<^verbatim>\<open>save_to_cache\<close>.
\<close>

theorem repeat_upload_served_from_cache:
  assumes name: "endswith (lower (filename file)) ''.pdf''"
      and content: "file_read file = Inr content"
      and first: "upload_body env file w = (Inr r, w1)"
      and result: "truthy r"
      and rd: "os_error OpenRead (cache_path (get_file_hash env content)) w = None"
      and op: "os_error OpenWrite (cache_path (get_file_hash env content)) w = None"
      and wr: "os_error WriteData (cache_path (get_file_hash env content)) w = None"
      and ttl: "\<not> expired (cache_path (get_file_hash env content)) w1"
      and same_hash: "md5_hexdigest env2 = md5_hexdigest env"
  shows "upload_cv env2 file w1 = (Inr r, w1\<lparr>ticks := Suc (ticks w1)\<rparr>) \<and>
         calls (snd (upload_cv env2 file w1)) = calls w1"
proof -
  let ?h = "get_file_hash env content"
  have h2: "get_file_hash env2 content = ?h"
    by (simp add: get_file_hash_def same_hash)
  have stored: "\<exists>obj ts age. files w1 (cache_path ?h) = Some (Pickled obj) \<and>
           unpack2 obj = Inr (ts, r) \<and>
           float_sub (time_src w1 (ticks w1)) ts = Inr age \<and> io_error w1 = io_error w"
    using first
  proof (cases rule: upload_body_InrE)
    case (hit content')
    with content have g: "get_from_cache ?h w = (Inr r, w1)" by simp
    from get_hit_value [OF g result] obtain obj ts age where
      *: "files w (cache_path ?h) = Some (Pickled obj)" "unpack2 obj = Inr (ts, r)"
         "float_sub (time_src w (ticks w)) ts = Inr age" "w1 = w\<lparr>ticks := Suc (ticks w)\<rparr>"
      by blast
    from float_sub_defined [OF *(3)] obtain age' where
      "float_sub (time_src w1 (ticks w1)) ts = Inr age'" by blast
    with * show ?thesis by simp
  next
    case (processed content' c wa tp wb cv_text wc wd we)
    with content have c': "content' = content" by simp
    note fr = get_from_cache_frame [OF processed(2)]
    note tmp = save_temporary_InrD [OF processed(4)]
    note ex = extract_text_from_pdf_worldD [OF processed(5)]
    note ul = unlink_InrD [OF processed(6)]
    note gen = generate_json_from_text_worldD [OF processed(8)]
    have io: "io_error we = io_error w"
      using fr(1) tmp ex ul gen by simp
    show ?thesis
      using processed(9) io op wr c'
      by (auto simp: save_to_cache_cases os_error_def two_items_def split: option.splits)
  qed
  then obtain obj ts age where
    st: "files w1 (cache_path ?h) = Some (Pickled obj)" "unpack2 obj = Inr (ts, r)"
        "float_sub (time_src w1 (ticks w1)) ts = Inr age" "io_error w1 = io_error w"
    by blast
  have "get_from_cache ?h w1 = (Inr r, w1\<lparr>ticks := Suc (ticks w1)\<rparr>)"
    using st rd ttl by (simp add: get_from_cache_cases expired_def os_error_def stat_error_def)
  then have "upload_cv env2 file w1 = (Inr r, w1\<lparr>ticks := Suc (ticks w1)\<rparr>)"
    using name content result h2
    by (simp add: upload_cv_def upload_body_def try_except_def bind_io_def lift_io_def
        return_io_def Let_def)
  then show ?thesis by simp
qed

theorem repeat_upload_served_from_cache_witness:
  "fst (upload_cv demo_env resume_pdf (snd (upload_body demo_env resume_pdf quiet_world))) = Inr john \<and>
   calls (snd (upload_cv demo_env resume_pdf (snd (upload_body demo_env resume_pdf quiet_world)))) =
     [ExtractCall (TempPath 0), GenerateCall ''John Doe, Engineer\<newline>'', SaveCall ''abc'' john]"
proof -
  let ?w1 = "snd (upload_body demo_env resume_pdf quiet_world)"
  have first: "upload_body demo_env resume_pdf quiet_world = (Inr john, ?w1)"
    by (simp add: prod_eq_iff run_defs scene_defs)
  have c1: "calls ?w1 =
      [ExtractCall (TempPath 0), GenerateCall ''John Doe, Engineer\<newline>'', SaveCall ''abc'' john]"
    by (simp add: run_defs scene_defs)
  have "upload_cv demo_env resume_pdf ?w1 = (Inr john, ?w1\<lparr>ticks := Suc (ticks ?w1)\<rparr>) \<and>
         calls (snd (upload_cv demo_env resume_pdf ?w1)) = calls ?w1"
  proof (rule repeat_upload_served_from_cache [where content = "[0x25, 0x50]" and env = demo_env
        and w = quiet_world])
    show "endswith (lower (filename resume_pdf)) ''.pdf''"
      by (simp add: resume_pdf_def filename_checks)
    show "file_read resume_pdf = Inr [0x25, 0x50]"
      by (simp add: resume_pdf_def)
    show "upload_body demo_env resume_pdf quiet_world = (Inr john, ?w1)"
      by (rule first)
    show "truthy john" by (simp add: john_def)
    show "os_error OpenRead (cache_path (get_file_hash demo_env [0x25, 0x50])) quiet_world = None"
      "os_error OpenWrite (cache_path (get_file_hash demo_env [0x25, 0x50])) quiet_world = None"
      "os_error WriteData (cache_path (get_file_hash demo_env [0x25, 0x50])) quiet_world = None"
      by (simp_all add: os_error_def quiet_world_def)
    show "\<not> expired (cache_path (get_file_hash demo_env [0x25, 0x50])) ?w1"
      by (simp add: expired_def run_defs scene_defs)
    show "md5_hexdigest demo_env = md5_hexdigest demo_env" by simp
  qed
  with c1 show ?thesis by simp
qed

text \<open>
  The specification promises this for every content. Bytes that are not a PDF are extracted again
  on the second upload; and when the structuring service answers with the empty object,
  the second upload calls both the extractor and the structuring service again.
\<close>

theorem repeat_upload_reprocessed:
  "calls (snd (upload_cv demo_env not_a_pdf (snd (upload_cv demo_env not_a_pdf quiet_world)))) =
     [ExtractCall (TempPath 0), ExtractCall (TempPath 1)] \<and>
   fst (upload_cv (demo_env\<lparr>json_loads := (\<lambda>s. Inr (PDict []))\<rparr>) resume_pdf quiet_world) =
     Inr (PDict []) \<and>
   calls (snd (upload_cv (demo_env\<lparr>json_loads := (\<lambda>s. Inr (PDict []))\<rparr>) resume_pdf
     (snd (upload_cv (demo_env\<lparr>json_loads := (\<lambda>s. Inr (PDict []))\<rparr>) resume_pdf quiet_world)))) =
     [ExtractCall (TempPath 0), GenerateCall ''John Doe, Engineer\<newline>'', SaveCall ''abc'' (PDict []),
      ExtractCall (TempPath 1), GenerateCall ''John Doe, Engineer\<newline>'', SaveCall ''abc'' (PDict [])]"
  by (simp add: run_defs scene_defs)

text \<open>
  C9 (falsy cached result). Let the cache hold, for the content of an upload, a readable
  and unexpired record whose result \<open>c\<close> is falsy (the empty object, say). The lookup
  succeeds and returns \<open>c\<close>, yet \<^verbatim>\<open>upload_cv\<close> answers, and calls its collaborators, exactly
  as it does when the record is absent. When the temporary file operations, the
  extraction (of at least one page), the structuring and the cache write then succeed,
  the extractor and the structuring service are both called again, the fresh result is
  returned, and the record is overwritten with it and the time of the store.
\<close>

theorem falsy_cached_result_reprocessed:
  assumes name: "endswith (lower (filename file)) ''.pdf''"
      and content: "file_read file = Inr content"
      and cached: "files w (cache_path (get_file_hash env content)) =
                     Some (Pickled (PTuple [PFloat T, c]))"
      and fresh: "time_src w (ticks w) - T \<le> CACHE_EXPIRY"
      and readable: "os_error OpenRead (cache_path (get_file_hash env content)) w = None"
      and falsy: "\<not> truthy c"
  shows "get_from_cache (get_file_hash env content) w = (Inr c, w\<lparr>ticks := Suc (ticks w)\<rparr>) \<and>
         fst (upload_cv env file w) =
           fst (upload_cv env file
                  (w\<lparr>files := (files w)(cache_path (get_file_hash env content) := None)\<rparr>)) \<and>
         calls (snd (upload_cv env file w)) =
           calls (snd (upload_cv env file
                  (w\<lparr>files := (files w)(cache_path (get_file_hash env content) := None)\<rparr>))) \<and>
         (os_error OpenWrite (TempPath (next_tmp w)) w = None \<and>
          os_error WriteData (TempPath (next_tmp w)) w = None \<and>
          os_error OpenRead (TempPath (next_tmp w)) w = None \<and>
          os_error Unlink (TempPath (next_tmp w)) w = None \<and>
          pdf_reader env content = Inr (map Inr texts) \<and> texts \<noteq> [] \<and>
          chat_completion env (messages (concat (map (\<lambda>t. t @ ''\<newline>'') texts))) = Inr reply \<and>
          json_loads env reply = Inr r \<and> py_len r = Inr n \<and>
          os_error OpenWrite (cache_path (get_file_hash env content)) w = None \<and>
          os_error WriteData (cache_path (get_file_hash env content)) w = None \<longrightarrow>
            fst (upload_cv env file w) = Inr r \<and>
            calls (snd (upload_cv env file w)) =
              calls w @ [ExtractCall (TempPath (next_tmp w)),
                         GenerateCall (concat (map (\<lambda>t. t @ ''\<newline>'') texts)),
                         SaveCall (get_file_hash env content) r] \<and>
            files (snd (upload_cv env file w)) (cache_path (get_file_hash env content)) =
              Some (Pickled (PTuple [PFloat (time_src w (Suc (ticks w))), r])))"
proof -
  let ?h = "get_file_hash env content"
  let ?w0 = "w\<lparr>files := (files w)(cache_path ?h := None)\<rparr>"
  have hit: "get_from_cache ?h w = (Inr c, w\<lparr>ticks := Suc (ticks w)\<rparr>)"
    using cached fresh readable
    by (simp add: get_from_cache_cases stat_error_def two_items_def expiry_test)
  have absent: "get_from_cache ?h ?w0 = (Inr PNone, ?w0)"
    using readable by (simp add: get_from_cache_cases stat_error_def os_error_def)
  have rel: "fst (upload_body env file w) = fst (upload_body env file ?w0) \<and>
         calls (snd (upload_body env file w)) = calls (snd (upload_body env file ?w0))"
    by (rule upload_body_miss_rel [OF content hit falsy absent]) simp_all
  have same: "fst (upload_cv env file w) = fst (upload_cv env file ?w0) \<and>
         calls (snd (upload_cv env file w)) = calls (snd (upload_cv env file ?w0))"
    using name rel by (simp add: upload_cv_def try_except_return_fst try_except_return_snd)
  have again: "fst (upload_cv env file w) = Inr r \<and>
            calls (snd (upload_cv env file w)) =
              calls w @ [ExtractCall (TempPath (next_tmp w)),
                         GenerateCall (concat (map (\<lambda>t. t @ ''\<newline>'') texts)),
                         SaveCall ?h r] \<and>
            files (snd (upload_cv env file w)) (cache_path ?h) =
              Some (Pickled (PTuple [PFloat (time_src w (Suc (ticks w))), r]))"
    if "os_error OpenWrite (TempPath (next_tmp w)) w = None"
      "os_error WriteData (TempPath (next_tmp w)) w = None"
      "os_error OpenRead (TempPath (next_tmp w)) w = None"
      "os_error Unlink (TempPath (next_tmp w)) w = None"
      "pdf_reader env content = Inr (map Inr texts)" "texts \<noteq> []"
      "chat_completion env (messages (concat (map (\<lambda>t. t @ ''\<newline>'') texts))) = Inr reply"
      "json_loads env reply = Inr r" "py_len r = Inr n"
      "os_error OpenWrite (cache_path ?h) w = None"
      "os_error WriteData (cache_path ?h) w = None"
  proof -
    have ne: "concat (map (\<lambda>t. t @ ''\<newline>'') texts) \<noteq> []"
      using that(6) by (cases texts) simp_all
    show ?thesis
      using name content hit falsy that(1-5,7-11) ne
      by (simp add: upload_cv_def upload_body_def Let_def bind_io_def lift_io_def return_io_def
          raise_io_def try_except_def save_temporary_cases extract_text_from_pdf_def
          generate_json_from_text_def note_call_def open_rb_def unlink_def save_to_cache_cases
          os_error_def pdf_pages_def extract_pages_texts cache_path_def)
  qed
  show ?thesis
    using hit same again by blast
qed

theorem falsy_cached_result_reprocessed_witness:
  "fst (get_from_cache ''abc'' (with_record ''abc'' 1699999000 (PDict []) quiet_world)) = Inr (PDict []) \<and>
   fst (upload_cv demo_env resume_pdf (with_record ''abc'' 1699999000 (PDict []) quiet_world)) = Inr john \<and>
   calls (snd (upload_cv demo_env resume_pdf (with_record ''abc'' 1699999000 (PDict []) quiet_world))) =
     [ExtractCall (TempPath 0), GenerateCall ''John Doe, Engineer\<newline>'', SaveCall ''abc'' john] \<and>
   files (snd (upload_cv demo_env resume_pdf (with_record ''abc'' 1699999000 (PDict []) quiet_world)))
     (cache_path ''abc'') = Some (Pickled (PTuple [PFloat 1700000001, john]))"
proof -
  let ?w = "with_record ''abc'' 1699999000 (PDict []) quiet_world"
  let ?h = "get_file_hash demo_env [0x25, 0x50]"
  let ?cv = "concat (map (\<lambda>t. t @ ''\<newline>'') [''John Doe, Engineer''])"
  have h: "?h = ''abc''"
    by (simp add: get_file_hash_def demo_env_def)
  have name: "endswith (lower (filename resume_pdf)) ''.pdf''"
    by (simp add: resume_pdf_def filename_checks)
  have content: "file_read resume_pdf = Inr [0x25, 0x50]"
    by (simp add: resume_pdf_def)
  have cached: "files ?w (cache_path ?h) = Some (Pickled (PTuple [PFloat 1699999000, PDict []]))"
    by (simp add: h with_record_def)
  have fresh: "time_src ?w (ticks ?w) - 1699999000 \<le> CACHE_EXPIRY"
    by (simp add: with_record_def quiet_world_def CACHE_EXPIRY_def)
  have readable: "os_error OpenRead (cache_path ?h) ?w = None"
    by (simp add: os_error_def with_record_def quiet_world_def)
  have falsy: "\<not> truthy (PDict [])" by simp
  note t = falsy_cached_result_reprocessed [where texts = "[''John Doe, Engineer'']"
      and reply = "''JSON''" and r = john and n = 2, OF name content cached fresh readable falsy]
  have nominal: "os_error OpenWrite (TempPath (next_tmp ?w)) ?w = None \<and>
          os_error WriteData (TempPath (next_tmp ?w)) ?w = None \<and>
          os_error OpenRead (TempPath (next_tmp ?w)) ?w = None \<and>
          os_error Unlink (TempPath (next_tmp ?w)) ?w = None \<and>
          pdf_reader demo_env [0x25, 0x50] = Inr (map Inr [''John Doe, Engineer'']) \<and>
          [''John Doe, Engineer''] \<noteq> [] \<and>
          chat_completion demo_env (messages ?cv) = Inr ''JSON'' \<and>
          json_loads demo_env ''JSON'' = Inr john \<and> py_len john = Inr 2 \<and>
          os_error OpenWrite (cache_path ?h) ?w = None \<and>
          os_error WriteData (cache_path ?h) ?w = None"
    by (simp add: os_error_def scene_defs)
  from t nominal have
    "get_from_cache ?h ?w = (Inr (PDict []), ?w\<lparr>ticks := Suc (ticks ?w)\<rparr>)"
    "fst (upload_cv demo_env resume_pdf ?w) = Inr john"
    "calls (snd (upload_cv demo_env resume_pdf ?w)) =
       calls ?w @ [ExtractCall (TempPath (next_tmp ?w)), GenerateCall ?cv, SaveCall ?h john]"
    "files (snd (upload_cv demo_env resume_pdf ?w)) (cache_path ?h) =
       Some (Pickled (PTuple [PFloat (time_src ?w (Suc (ticks ?w))), john]))"
    by blast+
  then show ?thesis
    by (simp add: h with_record_def quiet_world_def)
qed

end
